theory Spec2Isabelle
  imports Main "HOL-Library.Word"
begin

unbundle bit_operations_syntax

section \<open>The signaling relay of \<open>routes.ts\<close>\<close>

text \<open>
  The relay is the WebSocket part of \<open>registerRoutes\<close> (\<open>routes.ts\<close>, lines 487 to 570):
  the \<open>connectedClients\<close> map, the handlers installed by \<open>wss.on('connection')\<close> for
  \<open>pong\<close>, \<open>message\<close> and \<open>close\<close>, and the \<open>pingInterval\<close> sweep. The handlers are
  callbacks on one thread, so each of them is a function from the relay state to the new
  state and the list of calls it makes on sockets. \<open>console.log\<close> and \<open>console.error\<close>
  write to the process log only; what is kept of them is the conversion of their
  arguments to strings, which can throw.
\<close>

subsection \<open>Values\<close>

text \<open>
  The values the message handler computes with: what \<open>JSON.parse\<close> returns, and
  \<open>undefined\<close> for a property that is not there. A number is the bit pattern of its
  IEEE 754 double. An object lists its own properties, each name once; \<open>map_of\<close>
  reads it.
\<close>

datatype json =
    Undefined
  | JNull
  | JBool bool
  | JNum "64 word"
  | JStr string
  | JArr "json list"
  | JObj "(string \<times> json) list"

text \<open>
  The exceptions: of \<open>JSON.parse\<close>, of reading a property of \<open>null\<close> or converting
  an object to a string, and the error that \<open>ws\<close> emits on a socket.
\<close>

datatype exn = SyntaxError | TypeError | FrameError

text \<open>
  \<open>data.p\<close> for the four names the handler reads (\<open>type\<close>, \<open>userId\<close>, \<open>from\<close>,
  \<open>to\<close>), none of which is on a prototype. Reading a property of \<open>null\<close> or
  \<open>undefined\<close> throws; any other value that has no such property of its own gives
  \<open>undefined\<close>.
\<close>

fun property :: "json \<Rightarrow> string \<Rightarrow> exn + json" where
  "property Undefined p = Inl TypeError"
| "property JNull p = Inl TypeError"
| "property (JObj kvs) p = Inr (case map_of kvs p of None \<Rightarrow> Undefined | Some v \<Rightarrow> v)"
| "property (JBool b) p = Inr Undefined"
| "property (JNum w) p = Inr Undefined"
| "property (JStr s) p = Inr Undefined"
| "property (JArr xs) p = Inr Undefined"

text \<open>
  JavaScript truthiness: \<open>undefined\<close>, \<open>null\<close>, \<open>false\<close>, \<open>+0\<close>, \<open>-0\<close>, \<open>NaN\<close> and the empty
  string are falsy, every array and object is truthy. A double is a zero when its 63 low
  bits are zero and a NaN when they exceed the bits of infinity.
\<close>

fun truthy :: "json \<Rightarrow> bool" where
  "truthy Undefined = False"
| "truthy JNull = False"
| "truthy (JBool b) = b"
| "truthy (JNum w) =
     (let m = w AND 0x7FFFFFFFFFFFFFFF in m \<noteq> 0 \<and> m \<le> 0x7FF0000000000000)"
| "truthy (JStr s) = (s \<noteq> [])"
| "truthy (JArr xs) = True"
| "truthy (JObj kvs) = True"

text \<open>
  \<open>`${v}`\<close>, the conversion to a string in the template literals of lines 515 and
  545, throws a TypeError on some parsed values. An object with a property \<open>toString\<close>
  of its own has no callable \<open>toString\<close> (no parsed value is callable), and
  \<open>valueOf\<close>, its own or the inherited one, gives no primitive. An array joins the
  strings of its elements. Everything else has a string.
\<close>

fun to_string_throws :: "json \<Rightarrow> bool" where
  "to_string_throws (JObj kvs) = (map_of kvs ''toString'' \<noteq> None)"
| "to_string_throws (JArr xs) = list_ex to_string_throws xs"
| "to_string_throws Undefined = False"
| "to_string_throws JNull = False"
| "to_string_throws (JBool b) = False"
| "to_string_throws (JNum w) = False"
| "to_string_throws (JStr s) = False"

text \<open>
  A value as the relay keeps it, in \<open>ws.userId\<close> and as a key of the \<open>Map\<close>: a
  primitive by value, an array or object by reference, with what it holds. \<open>Map\<close>
  compares keys by SameValueZero, which on truthy primitives is equality of the values
  (the relay only ever uses truthy keys), and on objects is identity of the reference.
\<close>

datatype jsval = Prim json | Ref nat json

fun truthy_val :: "jsval \<Rightarrow> bool" where
  "truthy_val (Prim j) = truthy j"
| "truthy_val (Ref r j) = True"

fun val_throws :: "jsval \<Rightarrow> bool" where
  "val_throws (Prim j) = to_string_throws j"
| "val_throws (Ref r j) = to_string_throws j"

text \<open>The value of \<open>data.userId\<close> when the parsed object, if it is one, lives at \<open>r\<close>.\<close>

fun val_of :: "nat \<Rightarrow> json \<Rightarrow> jsval" where
  "val_of r (JArr xs) = Ref r (JArr xs)"
| "val_of r (JObj kvs) = Ref r (JObj kvs)"
| "val_of r j = Prim j"

subsection \<open>Sockets and the relay state\<close>

datatype ready_state = CONNECTING | OPEN | CLOSING | CLOSED

text \<open>\<open>interface WebSocketClient extends WebSocket { userId?: string; isAlive?: boolean }\<close>\<close>

record client =
  userId :: "jsval option"
  isAlive :: "bool option"
  readyState :: ready_state

type_synonym ws = nat

text \<open>
  \<open>heap\<close> holds the socket objects by address, \<open>wss_clients\<close> is \<open>wss.clients\<close> in
  insertion order, \<open>connectedClients\<close> is the registry. \<open>next_ws\<close> and \<open>next_ref\<close> are
  the next free socket address and object reference.
\<close>

record relay =
  heap :: "ws \<Rightarrow> client"
  wss_clients :: "ws list"
  connectedClients :: "jsval \<rightharpoonup> ws"
  next_ws :: nat
  next_ref :: nat

datatype effect = Send ws string | Ping ws | Terminate ws

definition set_userId :: "relay \<Rightarrow> ws \<Rightarrow> jsval \<Rightarrow> relay" where
  "set_userId s w u = s\<lparr>heap := (heap s)(w := (heap s w)\<lparr>userId := Some u\<rparr>)\<rparr>"

definition set_isAlive :: "relay \<Rightarrow> ws \<Rightarrow> bool \<Rightarrow> relay" where
  "set_isAlive s w b = s\<lparr>heap := (heap s)(w := (heap s w)\<lparr>isAlive := Some b\<rparr>)\<rparr>"

definition set_readyState :: "relay \<Rightarrow> ws \<Rightarrow> ready_state \<Rightarrow> relay" where
  "set_readyState s w r = s\<lparr>heap := (heap s)(w := (heap s w)\<lparr>readyState := r\<rparr>)\<rparr>"

text \<open>\<open>if (ws.userId)\<close>: the property is set and truthy.\<close>

definition has_userId :: "relay \<Rightarrow> ws \<Rightarrow> bool" where
  "has_userId s w = (case userId (heap s w) of None \<Rightarrow> False | Some u \<Rightarrow> truthy_val u)"

text \<open>\<open>connectedClients.delete(ws.userId)\<close>\<close>

definition delete_userId :: "relay \<Rightarrow> ws \<Rightarrow> relay" where
  "delete_userId s w =
     (case userId (heap s w) of
        None \<Rightarrow> s
      | Some u \<Rightarrow> s\<lparr>connectedClients := (connectedClients s)(u := None)\<rparr>)"

text \<open>
  \<open>connectedClients.get(data.to)\<close>: an array or object in a message that was just
  parsed is a new reference, which is no key of the map.
\<close>

fun get_client :: "(jsval \<rightharpoonup> ws) \<Rightarrow> json \<Rightarrow> ws option" where
  "get_client m (JArr xs) = None"
| "get_client m (JObj kvs) = None"
| "get_client m j = m (Prim j)"

subsection \<open>The handlers\<close>

text \<open>\<open>wss.on('connection')\<close>, line 500: \<open>ws.isAlive = true\<close>.\<close>

definition on_connection :: "relay \<Rightarrow> ws \<Rightarrow> relay" where
  "on_connection s w = set_isAlive s w True"

text \<open>\<open>ws.on('pong')\<close>, lines 503 to 505.\<close>

definition on_pong :: "relay \<Rightarrow> ws \<Rightarrow> relay" where
  "on_pong s w = set_isAlive s w True"

text \<open>The registration branch, lines 513 to 516.\<close>

definition register :: "relay \<Rightarrow> ws \<Rightarrow> json \<Rightarrow> relay" where
  "register s w uid =
     (let u = val_of (next_ref s) uid;
          s1 = set_userId s w u;
          s2 = s1\<lparr>connectedClients := (connectedClients s1)(u \<mapsto> w)\<rparr>
      in s2\<lparr>next_ref := Suc (next_ref s2)\<rparr>)"

text \<open>
  The error envelope of lines 528 to 533, before \<open>JSON.stringify\<close>; \<open>sender\<close> is
  \<open>data.from\<close>.
\<close>

definition error_envelope :: "json \<Rightarrow> json" where
  "error_envelope sender =
     JObj [(''type'', JStr ''error''),
           (''message'', JStr ''Recipient not available''),
           (''from'', JStr ''server''),
           (''to'', sender)]"

text \<open>
  The signaling branch, lines 522 to 535; \<open>sender\<close> is \<open>data.from\<close> and \<open>dest\<close> is
  \<open>data.to\<close>.
\<close>

definition signal ::
  "(json \<Rightarrow> string) \<Rightarrow> relay \<Rightarrow> ws \<Rightarrow> string \<Rightarrow> json \<Rightarrow> json \<Rightarrow> effect list" where
  "signal stringify s w message sender dest =
     (case get_client (connectedClients s) dest of
        Some recipient \<Rightarrow>
          if readyState (heap s recipient) = OPEN then [Send recipient message]
          else if readyState (heap s w) = OPEN then [Send w (stringify (error_envelope sender))]
          else []
      | None \<Rightarrow>
          if readyState (heap s w) = OPEN then [Send w (stringify (error_envelope sender))]
          else [])"

text \<open>
  The body of the \<open>try\<close>, lines 509 to 536: the relay and the calls when the block is
  left, and the exception if it is left by one. \<open>message\<close> is the text
  \<open>message.toString()\<close> of the frame; \<open>parse\<close> is \<open>JSON.parse\<close>, \<open>None\<close> where it
  throws, and \<open>stringify\<close> is \<open>JSON.stringify\<close>. The four property reads have no
  effect and throw alike, so they are done first, \<open>data.type\<close> before the others as in
  the source. In the registration branch the template literal of line 515 comes after
  the two assignments.
\<close>

definition message_body ::
  "(string \<Rightarrow> json option) \<Rightarrow> (json \<Rightarrow> string) \<Rightarrow> relay \<Rightarrow> ws \<Rightarrow> string
     \<Rightarrow> (relay \<times> effect list) \<times> exn option" where
  "message_body parse stringify s w message =
     (case parse message of
        None \<Rightarrow> ((s, []), Some SyntaxError)
      | Some data \<Rightarrow>
     (case property data ''type'' of Inl e \<Rightarrow> ((s, []), Some e) | Inr ty \<Rightarrow>
     (case property data ''userId'' of Inl e \<Rightarrow> ((s, []), Some e) | Inr uid \<Rightarrow>
     (case property data ''from'' of Inl e \<Rightarrow> ((s, []), Some e) | Inr sender \<Rightarrow>
     (case property data ''to'' of Inl e \<Rightarrow> ((s, []), Some e) | Inr dest \<Rightarrow>
        if ty = JStr ''register'' \<and> truthy uid
        then ((register s w uid, []), if to_string_throws uid then Some TypeError else None)
        else if truthy ty \<and> truthy sender \<and> truthy dest
        then ((s, signal stringify s w message sender dest), None)
        else ((s, []), None))))))"

text \<open>
  \<open>ws.on('message')\<close>, lines 507 to 540: the \<open>catch\<close> only logs the exception, so the
  handler returns what the body left.
\<close>

definition on_message ::
  "(string \<Rightarrow> json option) \<Rightarrow> (json \<Rightarrow> string) \<Rightarrow> relay \<Rightarrow> ws \<Rightarrow> string
     \<Rightarrow> relay \<times> effect list" where
  "on_message parse stringify s w message = fst (message_body parse stringify s w message)"

text \<open>
  \<open>ws.on('close')\<close>, lines 542 to 547. The listener has no \<open>try\<close>: when the template
  literal of line 545 throws, after the delete, the exception leaves the listener.
\<close>

definition on_close :: "relay \<Rightarrow> ws \<Rightarrow> exn + relay" where
  "on_close s w =
     (case userId (heap s w) of
        None \<Rightarrow> Inr s
      | Some u \<Rightarrow>
          if truthy_val u
          then (if val_throws u then Inl TypeError else Inr (delete_userId s w))
          else Inr s)"

text \<open>
  \<open>ws.terminate()\<close> of the \<open>ws\<close> library destroys the socket: a socket that is not yet
  closed is closing from then on, and its \<open>close\<close> event follows later.
\<close>

definition terminate :: "relay \<Rightarrow> ws \<Rightarrow> relay" where
  "terminate s w =
     (if readyState (heap s w) = CLOSED then s else set_readyState s w CLOSING)"

text \<open>
  The callback of \<open>wss.clients.forEach\<close>, lines 553 to 563. \<open>ws.ping()\<close> on a socket
  that is no longer open sends nothing and does not throw.
\<close>

definition sweep_one :: "relay \<times> effect list \<Rightarrow> ws \<Rightarrow> relay \<times> effect list" where
  "sweep_one acc w =
     (let s = fst acc; out = snd acc in
      if isAlive (heap s w) = Some False
      then (terminate (if has_userId s w then delete_userId s w else s) w, out @ [Terminate w])
      else (set_isAlive s w False, out @ [Ping w]))"

text \<open>The \<open>pingInterval\<close> callback, lines 551 to 565.\<close>

definition ping_sweep :: "relay \<Rightarrow> relay \<times> effect list" where
  "ping_sweep s = foldl sweep_one (s, []) (wss_clients s)"

subsection \<open>The events of the server\<close>

text \<open>
  What the \<open>ws\<close> library does around the handlers. A new socket is open and in
  \<open>wss.clients\<close> when \<open>connection\<close> is emitted; a socket that emits \<open>close\<close> is
  closed and out of \<open>wss.clients\<close>; a peer that starts the closing handshake leaves
  its socket closing until then.
\<close>

definition accept :: "relay \<Rightarrow> relay" where
  "accept s =
     s\<lparr>heap := (heap s)(next_ws s := \<lparr>userId = None, isAlive = None, readyState = OPEN\<rparr>),
       wss_clients := wss_clients s @ [next_ws s],
       next_ws := Suc (next_ws s)\<rparr>"

definition closed :: "relay \<Rightarrow> ws \<Rightarrow> relay" where
  "closed s w = (set_readyState s w CLOSED)\<lparr>wss_clients := removeAll w (wss_clients s)\<rparr>"

text \<open>
  The events for which the connection handler installs a listener on the socket, lines
  503, 507 and 542. \<open>ws\<close> emits \<open>error\<close> on a socket whose peer sent a frame it rejects
  (a text frame that is not UTF-8, a reserved opcode, a payload over the limit), and an
  emitter with no listener for \<open>error\<close> throws the error.
\<close>

definition listeners :: "string list" where
  "listeners = [''pong'', ''message'', ''close'']"

definition emit_error :: "relay \<Rightarrow> ws \<Rightarrow> exn + relay" where
  "emit_error s w = (if ''error'' \<in> set listeners then Inr s else Inl FrameError)"

datatype event =
  Connect | Message ws string | Pong ws | Closing ws | Close ws | Frame_error ws | Tick

text \<open>
  One event of the event loop: the relay and the calls after it, or the exception that no
  one catches, with which the process ends. A socket that is not in \<open>wss.clients\<close> emits
  nothing, so an event for it leaves the relay as it is.
\<close>

fun step ::
  "(string \<Rightarrow> json option) \<Rightarrow> (json \<Rightarrow> string) \<Rightarrow> relay \<Rightarrow> event
     \<Rightarrow> exn + relay \<times> effect list" where
  "step parse stringify s Connect = Inr (on_connection (accept s) (next_ws s), [])"
| "step parse stringify s (Message w message) =
     (if w \<in> set (wss_clients s) then Inr (on_message parse stringify s w message)
      else Inr (s, []))"
| "step parse stringify s (Pong w) =
     (if w \<in> set (wss_clients s) then Inr (on_pong s w, []) else Inr (s, []))"
| "step parse stringify s (Closing w) =
     (if w \<in> set (wss_clients s) \<and> readyState (heap s w) = OPEN
      then Inr (set_readyState s w CLOSING, []) else Inr (s, []))"
| "step parse stringify s (Close w) =
     (if w \<in> set (wss_clients s)
      then (case on_close (closed s w) w of Inl e \<Rightarrow> Inl e | Inr s' \<Rightarrow> Inr (s', []))
      else Inr (s, []))"
| "step parse stringify s (Frame_error w) =
     (if w \<in> set (wss_clients s)
      then (case emit_error s w of Inl e \<Rightarrow> Inl e | Inr s' \<Rightarrow> Inr (s', []))
      else Inr (s, []))"
| "step parse stringify s Tick = Inr (ping_sweep s)"

text \<open>A run of the server: the relay after the events, or the exception that ended it.\<close>

fun run ::
  "(string \<Rightarrow> json option) \<Rightarrow> (json \<Rightarrow> string) \<Rightarrow> relay \<Rightarrow> event list
     \<Rightarrow> exn + relay" where
  "run parse stringify s [] = Inr s"
| "run parse stringify s (e # es) =
     (case step parse stringify s e of
        Inl x \<Rightarrow> Inl x
      | Inr r \<Rightarrow> run parse stringify (fst r) es)"

text \<open>
  The execution: every event the server handled, with the calls the relay made on it. It
  ends where the process does.
\<close>

fun trace ::
  "(string \<Rightarrow> json option) \<Rightarrow> (json \<Rightarrow> string) \<Rightarrow> relay \<Rightarrow> event list
     \<Rightarrow> (event \<times> effect list) list" where
  "trace parse stringify s [] = []"
| "trace parse stringify s (e # es) =
     (case step parse stringify s e of
        Inl x \<Rightarrow> []
      | Inr r \<Rightarrow> (e, snd r) # trace parse stringify (fst r) es)"

text \<open>The relay at server start: no socket, an empty registry.\<close>

definition init :: relay where
  "init =
     \<lparr>heap = (\<lambda>w. \<lparr>userId = None, isAlive = None, readyState = CLOSED\<rparr>),
      wss_clients = [],
      connectedClients = Map.empty,
      next_ws = 0,
      next_ref = 0\<rparr>"

subsection \<open>Envelopes\<close>

text \<open>
  \<open>data.p\<close> once \<open>data.type\<close> has been read; \<open>undefined\<close> as well where that read
  throws and the handler is left.
\<close>

definition field :: "json \<Rightarrow> string \<Rightarrow> json" where
  "field data p = (case property data p of Inl e \<Rightarrow> Undefined | Inr v \<Rightarrow> v)"

text \<open>The two tests of the handler, lines 512 and 520.\<close>

definition is_register :: "json \<Rightarrow> bool" where
  "is_register data \<longleftrightarrow>
     field data ''type'' = JStr ''register'' \<and> truthy (field data ''userId'')"

definition is_signal :: "json \<Rightarrow> bool" where
  "is_signal data \<longleftrightarrow>
     truthy (field data ''type'') \<and> truthy (field data ''from'') \<and> truthy (field data ''to'')"

subsection \<open>Executions\<close>

text \<open>
  A socket answers every probe before the next tick: walking the execution, \<open>pending\<close>
  says that a ping was sent to it and no pong has come back since. A tick must find
  nothing pending.
\<close>

fun answers :: "ws \<Rightarrow> bool \<Rightarrow> (event \<times> effect list) list \<Rightarrow> bool" where
  "answers w pending [] = True"
| "answers w pending ((Tick, out) # tr) = (\<not> pending \<and> answers w (Ping w \<in> set out) tr)"
| "answers w pending ((Pong x, out) # tr) = answers w (if x = w then False else pending) tr"
| "answers w pending ((Connect, out) # tr) = answers w pending tr"
| "answers w pending ((Message x m, out) # tr) = answers w pending tr"
| "answers w pending ((Closing x, out) # tr) = answers w pending tr"
| "answers w pending ((Close x, out) # tr) = answers w pending tr"
| "answers w pending ((Frame_error x, out) # tr) = answers w pending tr"

text \<open>The sweep terminated the socket somewhere in the execution.\<close>

definition reaped :: "ws \<Rightarrow> (event \<times> effect list) list \<Rightarrow> bool" where
  "reaped w tr \<longleftrightarrow> list_ex (\<lambda>step. Terminate w \<in> set (snd step)) tr"

text \<open>The call the sweep makes on a socket of \<open>wss.clients\<close>.\<close>

definition probe :: "relay \<Rightarrow> ws \<Rightarrow> effect" where
  "probe s w = (if isAlive (heap s w) = Some False then Terminate w else Ping w)"

text \<open>
  \<open>wss.clients\<close> is a \<open>Set\<close>: it holds a socket once, and only sockets that have
  been created.
\<close>

definition clients_ok :: "relay \<Rightarrow> bool" where
  "clients_ok s \<longleftrightarrow> distinct (wss_clients s) \<and> list_all (\<lambda>x. x < next_ws s) (wss_clients s)"

subsection \<open>The frames of the scenarios\<close>

text \<open>
  \<open>JSON.parse\<close> and \<open>JSON.stringify\<close> on the frames the scenarios below send: the
  seventh scenario of the specification (\<open>u1\<close>, \<open>u2\<close> and an offer), a registration
  that also carries \<open>from\<close> and \<open>to\<close>, an offer without \<open>to\<close>, a registration
  whose \<open>userId\<close> is an object with a property \<open>toString\<close> (the number 1, with the
  bits of its double), and \<open>null\<close>. Any other text is taken not to parse.
\<close>

definition reg_u1 :: string where
  "reg_u1 = ''{\"type\":\"register\",\"userId\":\"u1\"}''"

definition reg_u2 :: string where
  "reg_u2 = ''{\"type\":\"register\",\"userId\":\"u2\"}''"

definition offer :: string where
  "offer = ''{\"type\":\"offer\",\"from\":\"u2\",\"to\":\"u1\",\"sdp\":\"abc\"}''"

definition reg_routed :: string where
  "reg_routed = ''{\"type\":\"register\",\"userId\":\"u3\",\"from\":\"u2\",\"to\":\"u1\"}''"

definition offer_no_to :: string where
  "offer_no_to = ''{\"type\":\"offer\",\"from\":\"u2\"}''"

definition reg_object :: string where
  "reg_object = ''{\"type\":\"register\",\"userId\":{\"toString\":1}}''"

definition unavailable_u2 :: string where
  "unavailable_u2 =
     ''{\"type\":\"error\",\"message\":\"Recipient not available\",\"from\":\"server\",\"to\":\"u2\"}''"

definition reg_u1_data :: json where
  "reg_u1_data = JObj [(''type'', JStr ''register''), (''userId'', JStr ''u1'')]"

definition reg_u2_data :: json where
  "reg_u2_data = JObj [(''type'', JStr ''register''), (''userId'', JStr ''u2'')]"

definition offer_data :: json where
  "offer_data =
     JObj [(''type'', JStr ''offer''), (''from'', JStr ''u2''), (''to'', JStr ''u1''),
           (''sdp'', JStr ''abc'')]"

definition reg_routed_data :: json where
  "reg_routed_data =
     JObj [(''type'', JStr ''register''), (''userId'', JStr ''u3''),
           (''from'', JStr ''u2''), (''to'', JStr ''u1'')]"

definition offer_no_to_data :: json where
  "offer_no_to_data = JObj [(''type'', JStr ''offer''), (''from'', JStr ''u2'')]"

definition reg_object_data :: json where
  "reg_object_data =
     JObj [(''type'', JStr ''register''),
           (''userId'', JObj [(''toString'', JNum 0x3FF0000000000000)])]"

definition parse_frames :: "string \<Rightarrow> json option" where
  "parse_frames =
     map_of
       [(reg_u1, reg_u1_data),
        (reg_u2, reg_u2_data),
        (offer, offer_data),
        (reg_routed, reg_routed_data),
        (offer_no_to, offer_no_to_data),
        (reg_object, reg_object_data),
        (''null'', JNull)]"

definition stringify_frames :: "json \<Rightarrow> string" where
  "stringify_frames j = (if j = error_envelope (JStr ''u2'') then unavailable_u2 else [])"

text \<open>
  The states of the scenarios, each reached from server start by the events named with
  it below. \<open>registered u w\<close> is a socket that registered the string \<open>u\<close>.
\<close>

definition no_socket :: client where
  "no_socket = \<lparr>userId = None, isAlive = None, readyState = CLOSED\<rparr>"

definition connected :: client where
  "connected = \<lparr>userId = None, isAlive = Some True, readyState = OPEN\<rparr>"

definition registered :: "string \<Rightarrow> client" where
  "registered u = \<lparr>userId = Some (Prim (JStr u)), isAlive = Some True, readyState = OPEN\<rparr>"

text \<open>Two sockets; \<open>u1\<close> registered on socket 0.\<close>

definition only_u1_registered :: relay where
  "only_u1_registered =
     \<lparr>heap = (\<lambda>w. no_socket)(0 := registered ''u1'', 1 := connected),
      wss_clients = [0, 1],
      connectedClients = [Prim (JStr ''u1'') \<mapsto> 0],
      next_ws = 2, next_ref = 1\<rparr>"

text \<open>Then \<open>u2\<close> registered on socket 1.\<close>

definition both_registered :: relay where
  "both_registered =
     \<lparr>heap = (\<lambda>w. no_socket)(0 := registered ''u1'', 1 := registered ''u2''),
      wss_clients = [0, 1],
      connectedClients = [Prim (JStr ''u1'') \<mapsto> 0, Prim (JStr ''u2'') \<mapsto> 1],
      next_ws = 2, next_ref = 2\<rparr>"

text \<open>Then socket 0 closed.\<close>

definition u1_closed :: relay where
  "u1_closed =
     \<lparr>heap = (\<lambda>w. no_socket)(0 := (registered ''u1'')\<lparr>readyState := CLOSED\<rparr>,
                                1 := registered ''u2''),
      wss_clients = [1],
      connectedClients = [Prim (JStr ''u2'') \<mapsto> 1],
      next_ws = 2, next_ref = 2\<rparr>"

text \<open>Then two ticks with no pong from socket 1, which the second tick terminated.\<close>

definition u2_terminated :: relay where
  "u2_terminated =
     \<lparr>heap = (\<lambda>w. no_socket)(0 := (registered ''u1'')\<lparr>readyState := CLOSED\<rparr>,
                                1 := (registered ''u2'')\<lparr>isAlive := Some False,
                                                          readyState := CLOSING\<rparr>),
      wss_clients = [1],
      connectedClients = Map.empty,
      next_ws = 2, next_ref = 2\<rparr>"

text \<open>Both registered, one tick gone, and only socket 0 has answered its ping.\<close>

definition u2_silent :: relay where
  "u2_silent =
     \<lparr>heap = (\<lambda>w. no_socket)(0 := registered ''u1'',
                                1 := (registered ''u2'')\<lparr>isAlive := Some False\<rparr>),
      wss_clients = [0, 1],
      connectedClients = [Prim (JStr ''u1'') \<mapsto> 0, Prim (JStr ''u2'') \<mapsto> 1],
      next_ws = 2, next_ref = 2\<rparr>"

text \<open>Three sockets.\<close>

definition three_connected :: relay where
  "three_connected =
     \<lparr>heap = (\<lambda>w. no_socket)(0 := connected, 1 := connected, 2 := connected),
      wss_clients = [0, 1, 2],
      connectedClients = Map.empty,
      next_ws = 3, next_ref = 0\<rparr>"

text \<open>Then \<open>u1\<close> registered on socket 0 and after that on socket 1.\<close>

definition u1_twice :: relay where
  "u1_twice =
     \<lparr>heap = (\<lambda>w. no_socket)(0 := registered ''u1'', 1 := registered ''u1'', 2 := connected),
      wss_clients = [0, 1, 2],
      connectedClients = [Prim (JStr ''u1'') \<mapsto> 1],
      next_ws = 3, next_ref = 2\<rparr>"

text \<open>Then socket 0 closed.\<close>

definition u1_first_closed :: relay where
  "u1_first_closed =
     \<lparr>heap = (\<lambda>w. no_socket)(0 := (registered ''u1'')\<lparr>readyState := CLOSED\<rparr>,
                                1 := registered ''u1'', 2 := connected),
      wss_clients = [1, 2],
      connectedClients = Map.empty,
      next_ws = 3, next_ref = 2\<rparr>"

text \<open>One socket, registered with the object of \<open>reg_object\<close> as its identity.\<close>

definition object_registered :: relay where
  "object_registered =
     \<lparr>heap = (\<lambda>w. no_socket)
               (0 := \<lparr>userId = Some (Ref 0 (JObj [(''toString'', JNum 0x3FF0000000000000)])),
                       isAlive = Some True, readyState = OPEN\<rparr>),
      wss_clients = [0],
      connectedClients = [Ref 0 (JObj [(''toString'', JNum 0x3FF0000000000000)]) \<mapsto> 0],
      next_ws = 1, next_ref = 1\<rparr>"

text \<open>
  A text the message handler drops: one that does not parse, or one that is neither a
  registration nor a signal.
\<close>

definition malformed :: "(string \<Rightarrow> json option) \<Rightarrow> string \<Rightarrow> bool" where
  "malformed parse message =
     (case parse message of
        None \<Rightarrow> True
      | Some data \<Rightarrow> \<not> is_register data \<and> \<not> is_signal data)"

section \<open>Proofs\<close>

subsection \<open>The message handler by cases\<close>

lemma on_message_cases:
  "on_message parse stringify s w message =
     (case parse message of
        None \<Rightarrow> (s, [])
      | Some data \<Rightarrow>
          if is_register data then (register s w (field data ''userId''), [])
          else if is_signal data
          then (s, signal stringify s w message (field data ''from'') (field data ''to''))
          else (s, []))"
  by (cases "parse message"; cases "the (parse message)")
     (simp_all add: on_message_def message_body_def is_register_def is_signal_def field_def)

subsection \<open>The scenarios\<close>

lemma parse_frames_simps:
  "parse_frames reg_u1 = Some reg_u1_data"
  "parse_frames reg_u2 = Some reg_u2_data"
  "parse_frames offer = Some offer_data"
  "parse_frames reg_routed = Some reg_routed_data"
  "parse_frames offer_no_to = Some offer_no_to_data"
  "parse_frames reg_object = Some reg_object_data"
  "parse_frames ''null'' = Some JNull"
  "parse_frames ''not json'' = None"
  by (simp_all add: parse_frames_def reg_u1_def reg_u2_def offer_def reg_routed_def
        offer_no_to_def reg_object_def)

lemma frame_kinds:
  "is_register reg_u1_data" "field reg_u1_data ''userId'' = JStr ''u1''"
  "is_register reg_u2_data" "field reg_u2_data ''userId'' = JStr ''u2''"
  "is_signal offer_data" "\<not> is_register offer_data"
  "field offer_data ''from'' = JStr ''u2''" "field offer_data ''to'' = JStr ''u1''"
  "is_signal reg_routed_data" "is_register reg_routed_data"
  "field reg_routed_data ''userId'' = JStr ''u3''"
  "field reg_routed_data ''to'' = JStr ''u1''"
  "\<not> is_signal offer_no_to_data" "\<not> is_register offer_no_to_data"
  "\<not> is_signal JNull" "\<not> is_register JNull"
  "field reg_routed_data ''type'' = JStr ''register''"
  "field reg_routed_data ''from'' = JStr ''u2''"
  "is_register reg_object_data"
  "field reg_object_data ''userId'' = JObj [(''toString'', JNum 0x3FF0000000000000)]"
  by (simp_all add: is_register_def is_signal_def field_def reg_u1_data_def reg_u2_data_def
        offer_data_def reg_routed_data_def offer_no_to_data_def reg_object_data_def)

lemmas state_defs =
  register_def on_connection_def on_pong_def on_close_def accept_def closed_def
  set_userId_def set_isAlive_def set_readyState_def has_userId_def delete_userId_def init_def
  emit_error_def listeners_def

lemmas scenario_simps =
  on_message_cases parse_frames_simps frame_kinds state_defs Let_def

lemmas sweep_defs = ping_sweep_def sweep_one_def terminate_def

lemmas scenario_defs =
  only_u1_registered_def both_registered_def u1_closed_def u2_terminated_def u2_silent_def
  three_connected_def u1_twice_def u1_first_closed_def object_registered_def
  no_socket_def connected_def registered_def

text \<open>Every state of the scenarios is reached from server start.\<close>

lemma reached:
  "run parse_frames stringify_frames init [Connect, Connect, Message 0 reg_u1]
     = Inr only_u1_registered"
  "run parse_frames stringify_frames only_u1_registered [Message 1 reg_u2] = Inr both_registered"
  "run parse_frames stringify_frames both_registered [Close 0] = Inr u1_closed"
  "run parse_frames stringify_frames u1_closed [Tick, Tick] = Inr u2_terminated"
  "run parse_frames stringify_frames both_registered [Tick, Pong 0] = Inr u2_silent"
  "run parse_frames stringify_frames init [Connect, Connect, Connect] = Inr three_connected"
  "run parse_frames stringify_frames three_connected [Message 0 reg_u1, Message 1 reg_u1]
     = Inr u1_twice"
  "run parse_frames stringify_frames u1_twice [Close 0] = Inr u1_first_closed"
  "run parse_frames stringify_frames init [Connect, Message 0 reg_object] = Inr object_registered"
  by (simp_all add: scenario_defs scenario_simps sweep_defs fun_eq_iff)

lemma both_registered_simps:
  "wss_clients both_registered = [0, 1]"
  "connectedClients both_registered (Prim (JStr ''u1'')) = Some 0"
  "connectedClients both_registered (Prim (JStr ''u2'')) = Some (Suc 0)"
  "heap both_registered 0 =
     \<lparr>userId = Some (Prim (JStr ''u1'')), isAlive = Some True, readyState = OPEN\<rparr>"
  "heap both_registered (Suc 0) =
     \<lparr>userId = Some (Prim (JStr ''u2'')), isAlive = Some True, readyState = OPEN\<rparr>"
  by (simp_all add: scenario_defs)

lemma only_u1_registered_simps:
  "wss_clients only_u1_registered = [0, 1]"
  "connectedClients only_u1_registered (Prim (JStr ''u1'')) = Some 0"
  "connectedClients only_u1_registered (Prim (JStr ''u2'')) = None"
  "heap only_u1_registered 0 =
     \<lparr>userId = Some (Prim (JStr ''u1'')), isAlive = Some True, readyState = OPEN\<rparr>"
  "heap only_u1_registered (Suc 0) =
     \<lparr>userId = None, isAlive = Some True, readyState = OPEN\<rparr>"
  by (simp_all add: scenario_defs)

lemma u1_closed_simps:
  "wss_clients u1_closed = [1]"
  "connectedClients u1_closed (Prim (JStr ''u1'')) = None"
  "connectedClients u1_closed (Prim (JStr ''u2'')) = Some (Suc 0)"
  "heap u1_closed 0 =
     \<lparr>userId = Some (Prim (JStr ''u1'')), isAlive = Some True, readyState = CLOSED\<rparr>"
  "heap u1_closed (Suc 0) =
     \<lparr>userId = Some (Prim (JStr ''u2'')), isAlive = Some True, readyState = OPEN\<rparr>"
  by (simp_all add: scenario_defs)

lemma u2_terminated_simps:
  "wss_clients u2_terminated = [1]"
  "connectedClients u2_terminated (Prim (JStr ''u1'')) = None"
  "readyState (heap u2_terminated (Suc 0)) = CLOSING"
  by (simp_all add: scenario_defs)

lemma three_connected_simps:
  "wss_clients three_connected = [0, 1, 2]"
  "readyState (heap three_connected (Suc 0)) = OPEN"
  by (simp_all add: scenario_defs)

lemma u1_twice_simps:
  "wss_clients u1_twice = [0, 1, 2]"
  "connectedClients u1_twice (Prim (JStr ''u1'')) = Some (Suc 0)"
  "heap u1_twice 0 =
     \<lparr>userId = Some (Prim (JStr ''u1'')), isAlive = Some True, readyState = OPEN\<rparr>"
  "heap u1_twice (Suc 0) =
     \<lparr>userId = Some (Prim (JStr ''u1'')), isAlive = Some True, readyState = OPEN\<rparr>"
  "heap u1_twice 2 = \<lparr>userId = None, isAlive = Some True, readyState = OPEN\<rparr>"
  by (simp_all add: scenario_defs)

lemma u2_silent_simps:
  "wss_clients u2_silent = [0, 1]"
  "connectedClients u2_silent (Prim (JStr ''u2'')) = Some (Suc 0)"
  "heap u2_silent 0 =
     \<lparr>userId = Some (Prim (JStr ''u1'')), isAlive = Some True, readyState = OPEN\<rparr>"
  "heap u2_silent (Suc 0) =
     \<lparr>userId = Some (Prim (JStr ''u2'')), isAlive = Some False, readyState = OPEN\<rparr>"
  by (simp_all add: scenario_defs)

lemma u2_silent_tick:
  "snd (ping_sweep u2_silent) = [Ping 0, Terminate 1]"
  "connectedClients (fst (ping_sweep u2_silent)) (Prim (JStr ''u2'')) = None"
  "connectedClients (fst (ping_sweep u2_silent)) (Prim (JStr ''u1'')) = Some 0"
  "heap (fst (ping_sweep u2_silent)) 0 =
     \<lparr>userId = Some (Prim (JStr ''u1'')), isAlive = Some False, readyState = OPEN\<rparr>"
  "heap (fst (ping_sweep u2_silent)) (Suc 0) =
     \<lparr>userId = Some (Prim (JStr ''u2'')), isAlive = Some False, readyState = CLOSING\<rparr>"
  by (simp_all add: scenario_defs scenario_simps sweep_defs)

subsection \<open>Signals\<close>

text \<open>
  C1, amended. An envelope whose \<open>type\<close>, \<open>from\<close> and \<open>to\<close> are non-empty (truthy, as
  line 520 tests them) and which is not a registration (\<open>type\<close> \<open>register\<close> with a
  non-empty \<open>userId\<close>), addressed to an identity that the registry maps to an open
  socket: the relay makes exactly one call, sending the text of the frame as it came to
  that socket, and changes nothing. So the sender gets nothing, unless the registry maps
  \<open>to\<close> to the sender's own socket.
\<close>

theorem signal_forwarded_verbatim:
  assumes "parse message = Some data"
      and "is_signal data" and "\<not> is_register data"
      and "get_client (connectedClients s) (field data ''to'') = Some recipient"
      and "readyState (heap s recipient) = OPEN"
    shows "on_message parse stringify s w message = (s, [Send recipient message])"
  using assms by (simp add: on_message_cases signal_def)

text \<open>
  The offer of \<open>u2\<close> on socket 1 reaches \<open>u1\<close> on socket 0.
\<close>

theorem signal_forwarded_verbatim_witness:
  "parse_frames offer = Some offer_data \<and> is_signal offer_data \<and> \<not> is_register offer_data \<and>
   get_client (connectedClients both_registered) (field offer_data ''to'') = Some 0 \<and>
   readyState (heap both_registered 0) = OPEN \<and>
   on_message parse_frames stringify_frames both_registered 1 offer
     = (both_registered, [Send 0 offer])"
proof -
  have h: "get_client (connectedClients both_registered) (field offer_data ''to'') = Some 0"
          "readyState (heap both_registered 0) = OPEN"
    by (simp_all add: frame_kinds both_registered_simps)
  show ?thesis
    using signal_forwarded_verbatim
            [where parse = parse_frames and message = offer and data = offer_data
               and s = both_registered and recipient = 0 and stringify = stringify_frames
               and w = 1] h
    by (simp add: parse_frames_simps frame_kinds)
qed

text \<open>
  C1 as stated fails: a frame with non-empty \<open>type\<close>, \<open>from\<close> and \<open>to\<close>, addressed to
  \<open>u1\<close> who is registered on the open socket 0, is not forwarded when its type is
  \<open>register\<close> and it has a \<open>userId\<close>: nothing is sent at all. And when \<open>u1\<close> on
  socket 0 sends the offer addressed to \<open>u1\<close>, the sender is the one who receives it.
\<close>

theorem registration_with_route_not_forwarded:
  "parse_frames reg_routed = Some reg_routed_data \<and>
   field reg_routed_data ''type'' = JStr ''register'' \<and>
   field reg_routed_data ''from'' = JStr ''u2'' \<and>
   field reg_routed_data ''to'' = JStr ''u1'' \<and>
   get_client (connectedClients both_registered) (field reg_routed_data ''to'') = Some 0 \<and>
   readyState (heap both_registered 0) = OPEN \<and>
   snd (on_message parse_frames stringify_frames both_registered 1 reg_routed) = [] \<and>
   snd (on_message parse_frames stringify_frames both_registered 0 offer) = [Send 0 offer]"
  by (simp add: on_message_cases parse_frames_simps frame_kinds both_registered_simps signal_def)

text \<open>
  C3, amended. An envelope with non-empty \<open>type\<close>, \<open>from\<close> and \<open>to\<close> that is not a
  registration, when the registry has no open socket for \<open>to\<close>: if the sender's own
  socket is open, the relay makes exactly one call, sending to the sender the error
  envelope with exactly the fields \<open>type\<close> \<open>error\<close>, \<open>message\<close>
  \<open>Recipient not available\<close>, \<open>from\<close> \<open>server\<close> and \<open>to\<close> the \<open>from\<close> of the
  envelope; if the sender's socket is not open, it sends nothing (the guard of line 527).
  The relay state is unchanged.
\<close>

theorem unavailable_recipient_error:
  assumes "parse message = Some data"
      and "is_signal data" and "\<not> is_register data"
      and "\<forall>r. get_client (connectedClients s) (field data ''to'') = Some r
               \<longrightarrow> readyState (heap s r) \<noteq> OPEN"
    shows "on_message parse stringify s w message =
             (s, if readyState (heap s w) = OPEN
                 then [Send w (stringify (JObj [(''type'', JStr ''error''),
                                                (''message'', JStr ''Recipient not available''),
                                                (''from'', JStr ''server''),
                                                (''to'', field data ''from'')]))]
                 else [])"
  using assms
  by (simp add: on_message_cases signal_def error_envelope_def split: option.splits)

text \<open>
  After \<open>u1\<close> has closed, the offer of \<open>u2\<close> comes back to socket 1 as the error
  envelope addressed to \<open>u2\<close>.
\<close>

theorem unavailable_recipient_error_witness:
  "parse_frames offer = Some offer_data \<and> is_signal offer_data \<and> \<not> is_register offer_data \<and>
   get_client (connectedClients u1_closed) (field offer_data ''to'') = None \<and>
   readyState (heap u1_closed 1) = OPEN \<and>
   on_message parse_frames stringify_frames u1_closed 1 offer
     = (u1_closed, [Send 1 unavailable_u2])"
proof -
  have h: "get_client (connectedClients u1_closed) (field offer_data ''to'') = None"
    by (simp add: frame_kinds u1_closed_simps)
  then have "\<forall>r. get_client (connectedClients u1_closed) (field offer_data ''to'') = Some r
               \<longrightarrow> readyState (heap u1_closed r) \<noteq> OPEN"
    by simp
  with unavailable_recipient_error
         [where parse = parse_frames and message = offer and data = offer_data
            and s = u1_closed and stringify = stringify_frames and w = 1] h
  show ?thesis
    by (simp add: parse_frames_simps frame_kinds u1_closed_simps stringify_frames_def
          error_envelope_def)
qed

text \<open>
  C3 as stated fails: with \<open>u1\<close> gone, a frame with non-empty \<open>type\<close>, \<open>from\<close> and
  \<open>to\<close> addressed to \<open>u1\<close> gets no error reply when it is a registration; and the
  offer gets none when it comes from socket 1 after the sweep has terminated that socket.
\<close>

theorem no_error_for_registration_or_closing_sender:
  "parse_frames reg_routed = Some reg_routed_data \<and>
   field reg_routed_data ''type'' = JStr ''register'' \<and>
   field reg_routed_data ''from'' = JStr ''u2'' \<and>
   field reg_routed_data ''to'' = JStr ''u1'' \<and>
   get_client (connectedClients u1_closed) (field reg_routed_data ''to'') = None \<and>
   readyState (heap u1_closed 1) = OPEN \<and>
   snd (on_message parse_frames stringify_frames u1_closed 1 reg_routed) = [] \<and>
   run parse_frames stringify_frames u1_closed [Tick, Tick] = Inr u2_terminated \<and>
   get_client (connectedClients u2_terminated) (field offer_data ''to'') = None \<and>
   readyState (heap u2_terminated 1) = CLOSING \<and>
   step parse_frames stringify_frames u2_terminated (Message 1 offer) = Inr (u2_terminated, [])"
proof -
  have "snd (on_message parse_frames stringify_frames u1_closed 1 reg_routed) = []"
    by (simp add: on_message_cases parse_frames_simps frame_kinds)
  with reached(4) show ?thesis
    by (simp add: on_message_cases parse_frames_simps frame_kinds u1_closed_simps
          u2_terminated_simps signal_def del: run.simps)
qed

subsection \<open>Registration\<close>

lemma register_string:
  "register s w (JStr identity) =
     s\<lparr>heap := (heap s)(w := (heap s w)\<lparr>userId := Some (Prim (JStr identity))\<rparr>),
       connectedClients := (connectedClients s)(Prim (JStr identity) \<mapsto> w),
       next_ref := Suc (next_ref s)\<rparr>"
  by (simp add: register_def set_userId_def Let_def)

text \<open>
  C4. Two registrations of the same identity, by socket \<open>a1\<close> and then by socket
  \<open>a2\<close>: each makes the registry map the identity to the registering socket, replacing
  what was there, records the identity on the socket, and makes no call on any socket (no
  acknowledgment, and no \<open>terminate\<close>); the channel state of every socket and
  \<open>wss.clients\<close> stay as they were. A signal addressed to that identity, from any sender,
  is then sent to \<open>a2\<close> and to no one else.
\<close>

theorem register_overwrites_silently:
  assumes "parse m1 = Some d1" and "is_register d1" and "field d1 ''userId'' = JStr identity"
      and "parse m2 = Some d2" and "is_register d2" and "field d2 ''userId'' = JStr identity"
      and "parse m3 = Some d3" and "is_signal d3" and "\<not> is_register d3"
      and "field d3 ''to'' = JStr identity"
      and "readyState (heap s a2) = OPEN"
    shows "(case on_message parse stringify s a1 m1 of (s1, out1) \<Rightarrow>
            case on_message parse stringify s1 a2 m2 of (s2, out2) \<Rightarrow>
              out1 = [] \<and> out2 = [] \<and>
              connectedClients s1 = (connectedClients s)(Prim (JStr identity) \<mapsto> a1) \<and>
              connectedClients s2 = (connectedClients s)(Prim (JStr identity) \<mapsto> a2) \<and>
              userId (heap s1 a1) = Some (Prim (JStr identity)) \<and>
              userId (heap s2 a2) = Some (Prim (JStr identity)) \<and>
              (\<forall>x. readyState (heap s2 x) = readyState (heap s x)) \<and>
              wss_clients s2 = wss_clients s \<and>
              on_message parse stringify s2 sender m3 = (s2, [Send a2 m3]))"
  using assms by (auto simp add: on_message_cases register_string signal_def)

text \<open>
  Sockets 0 and 1 both register \<open>u1\<close>; the offer sent on socket 2 goes to socket 1.
\<close>

theorem register_overwrites_silently_witness:
  "parse_frames reg_u1 = Some reg_u1_data \<and> is_register reg_u1_data \<and>
   field reg_u1_data ''userId'' = JStr ''u1'' \<and>
   parse_frames offer = Some offer_data \<and> is_signal offer_data \<and> \<not> is_register offer_data \<and>
   field offer_data ''to'' = JStr ''u1'' \<and>
   readyState (heap three_connected 1) = OPEN \<and>
   fst (on_message parse_frames stringify_frames
          (fst (on_message parse_frames stringify_frames three_connected 0 reg_u1))
          1 reg_u1) = u1_twice \<and>
   on_message parse_frames stringify_frames u1_twice 2 offer = (u1_twice, [Send 1 offer])"
proof -
  have o: "readyState (heap three_connected 1) = OPEN"
    by (simp add: three_connected_simps)
  have t: "fst (on_message parse_frames stringify_frames
            (fst (on_message parse_frames stringify_frames three_connected 0 reg_u1))
            1 reg_u1) = u1_twice"
    by (simp add: scenario_defs scenario_simps fun_eq_iff)
  from register_overwrites_silently
         [where parse = parse_frames and stringify = stringify_frames
            and s = three_connected
            and ?m1.0 = reg_u1 and ?d1.0 = reg_u1_data and ?m2.0 = reg_u1 and ?d2.0 = reg_u1_data
            and ?m3.0 = offer and ?d3.0 = offer_data and identity = "''u1''"
            and ?a1.0 = 0 and ?a2.0 = 1 and sender = 2] t o
  show ?thesis
    by (simp add: parse_frames_simps frame_kinds split: prod.splits)
qed

text \<open>
  C9. A frame whose \<open>type\<close> is \<open>register\<close> and whose \<open>userId\<close> is non-empty only
  registers: the handler returns the relay after the registration and makes no call on
  any socket, whatever \<open>from\<close> and \<open>to\<close> the frame carries.
\<close>

theorem registration_only_registers:
  assumes "parse message = Some data" and "is_register data"
    shows "on_message parse stringify s w message = (register s w (field data ''userId''), [])"
  using assms by (simp add: on_message_cases)

text \<open>
  The registration of \<open>u3\<close> that is also addressed from \<open>u2\<close> to the registered
  \<open>u1\<close>.
\<close>

theorem registration_only_registers_witness:
  "parse_frames reg_routed = Some reg_routed_data \<and> is_register reg_routed_data \<and>
   is_signal reg_routed_data \<and>
   on_message parse_frames stringify_frames both_registered 1 reg_routed
     = (register both_registered 1 (JStr ''u3''), [])"
  using registration_only_registers
          [where parse = parse_frames and message = reg_routed and data = reg_routed_data
             and stringify = stringify_frames and s = both_registered and w = 1]
  by (simp add: parse_frames_simps frame_kinds)

subsection \<open>Malformed frames\<close>

text \<open>
  A text that reaches the message handler and does not parse, or parses to something
  that is neither a registration nor an envelope with non-empty \<open>type\<close>, \<open>from\<close> and
  \<open>to\<close>, leaves the relay as it was and makes no call: the exception of \<open>JSON.parse\<close>
  or of reading a property of \<open>null\<close> is caught inside.
\<close>

lemma malformed_text_dropped:
  assumes "malformed parse message"
    shows "on_message parse stringify s w message = (s, [])"
  using assms by (auto simp add: malformed_def on_message_cases split: option.splits)

text \<open>
  C8 fails on the code. A frame that \<open>ws\<close> itself rejects, such as a text frame whose
  payload is not UTF-8, never reaches the message handler: \<open>ws\<close> emits \<open>error\<close> on the
  socket, the connection handler has installed no listener for it, and the error leaves
  the event loop uncaught. The process ends, and with it every connection: no later event
  is handled.
\<close>

theorem rejected_frame_ends_process:
  "''error'' \<notin> set listeners \<and>
   run parse_frames stringify_frames init
     [Connect, Connect, Message 0 reg_u1, Message 1 reg_u2] = Inr both_registered \<and>
   1 \<in> set (wss_clients both_registered) \<and>
   step parse_frames stringify_frames both_registered (Frame_error 1) = Inl FrameError \<and>
   run parse_frames stringify_frames both_registered [Frame_error 1, Message 1 offer]
     = Inl FrameError \<and>
   trace parse_frames stringify_frames both_registered [Frame_error 1, Message 1 offer] = []"
proof -
  have "run parse_frames stringify_frames init
          [Connect, Connect, Message 0 reg_u1, Message 1 reg_u2] = Inr both_registered"
    by (simp add: scenario_defs scenario_simps fun_eq_iff)
  then show ?thesis
    by (simp add: both_registered_simps emit_error_def listeners_def)
qed

subsection \<open>The sender's identity\<close>

text \<open>
  C10. The calls the relay makes for an envelope do not depend on what the sender has
  registered, nor on any registry entry other than that of \<open>to\<close>: two states in which
  \<open>to\<close> has the same registry entry, the socket of that entry has the same channel state
  and the sender's socket has the same channel state give the same calls for the same
  frame from the same socket. The states may differ in the \<open>userId\<close> of every socket and
  in every other registry entry, that of the sender's identity included.
\<close>

theorem sender_identity_not_checked:
  assumes "parse message = Some data"
      and "get_client (connectedClients s') (field data ''to'')
             = get_client (connectedClients s) (field data ''to'')"
      and "\<forall>r. get_client (connectedClients s) (field data ''to'') = Some r
               \<longrightarrow> readyState (heap s' r) = readyState (heap s r)"
      and "readyState (heap s' w) = readyState (heap s w)"
    shows "snd (on_message parse stringify s' w message)
             = snd (on_message parse stringify s w message)"
  using assms by (simp add: on_message_cases signal_def split: option.splits)

text \<open>
  The offer with \<open>from\<close> \<open>u2\<close> sent on socket 1, once with socket 1 registered as
  \<open>u2\<close> and once with socket 1 never registered: both states are reached from server
  start, they differ in the registry and in the sender's \<open>userId\<close>, and the offer is
  forwarded to socket 0 in both.
\<close>

theorem sender_identity_not_checked_witness:
  "run parse_frames stringify_frames init [Connect, Connect, Message 0 reg_u1]
     = Inr only_u1_registered \<and>
   run parse_frames stringify_frames only_u1_registered [Message 1 reg_u2]
     = Inr both_registered \<and>
   userId (heap only_u1_registered 1) = None \<and>
   userId (heap both_registered 1) = Some (Prim (JStr ''u2'')) \<and>
   connectedClients only_u1_registered (Prim (JStr ''u2'')) = None \<and>
   connectedClients both_registered (Prim (JStr ''u2'')) = Some 1 \<and>
   parse_frames offer = Some offer_data \<and>
   get_client (connectedClients only_u1_registered) (field offer_data ''to'')
     = get_client (connectedClients both_registered) (field offer_data ''to'') \<and>
   get_client (connectedClients both_registered) (field offer_data ''to'') = Some 0 \<and>
   readyState (heap only_u1_registered 0) = readyState (heap both_registered 0) \<and>
   readyState (heap only_u1_registered 1) = readyState (heap both_registered 1) \<and>
   snd (on_message parse_frames stringify_frames only_u1_registered 1 offer) = [Send 0 offer] \<and>
   snd (on_message parse_frames stringify_frames both_registered 1 offer) = [Send 0 offer]"
proof -
  have a: "get_client (connectedClients only_u1_registered) (field offer_data ''to'')
             = get_client (connectedClients both_registered) (field offer_data ''to'')"
    by (simp add: frame_kinds both_registered_simps only_u1_registered_simps)
  have b: "\<forall>r. get_client (connectedClients both_registered) (field offer_data ''to'') = Some r
             \<longrightarrow> readyState (heap only_u1_registered r) = readyState (heap both_registered r)"
    by (simp add: frame_kinds both_registered_simps only_u1_registered_simps)
  have c: "readyState (heap only_u1_registered 1) = readyState (heap both_registered 1)"
    by (simp add: both_registered_simps only_u1_registered_simps)
  have d: "snd (on_message parse_frames stringify_frames both_registered 1 offer) = [Send 0 offer]"
    by (simp add: on_message_cases parse_frames_simps frame_kinds both_registered_simps signal_def)
  from sender_identity_not_checked
         [where parse = parse_frames and stringify = stringify_frames and w = 1
            and message = offer and data = offer_data
            and s = both_registered and s' = only_u1_registered,
          OF parse_frames_simps(3) a b c] a b c d reached(1,2)
  show ?thesis
    by (simp add: parse_frames_simps frame_kinds both_registered_simps
          only_u1_registered_simps del: run.simps)
qed

subsection \<open>The sweep\<close>

text \<open>
  One round of the sweep touches the socket it visits and the registry, nothing else.
\<close>

lemma sweep_one_frame:
  "wss_clients (fst (sweep_one acc w)) = wss_clients (fst acc)"
  "next_ws (fst (sweep_one acc w)) = next_ws (fst acc)"
  "next_ref (fst (sweep_one acc w)) = next_ref (fst acc)"
  "userId (heap (fst (sweep_one acc w)) x) = userId (heap (fst acc) x)"
  "x \<noteq> w \<Longrightarrow> heap (fst (sweep_one acc w)) x = heap (fst acc) x"
  by (simp_all add: sweep_one_def terminate_def set_readyState_def set_isAlive_def
        delete_userId_def Let_def split: option.splits)

lemma sweep_one_calls: "snd (sweep_one acc w) = snd acc @ [probe (fst acc) w]"
  by (simp add: sweep_one_def probe_def Let_def)

lemma sweep_one_heap:
  "heap (fst (sweep_one acc w)) w =
     (if isAlive (heap (fst acc) w) = Some False
      then (heap (fst acc) w)\<lparr>readyState :=
             if readyState (heap (fst acc) w) = CLOSED then CLOSED else CLOSING\<rparr>
      else (heap (fst acc) w)\<lparr>isAlive := Some False\<rparr>)"
  by (simp add: sweep_one_def terminate_def set_readyState_def set_isAlive_def
        delete_userId_def Let_def split: option.splits)

lemma sweep_one_registry:
  "connectedClients (fst (sweep_one acc w)) =
     (if isAlive (heap (fst acc) w) = Some False \<and> has_userId (fst acc) w
      then (connectedClients (fst acc))(the (userId (heap (fst acc) w)) := None)
      else connectedClients (fst acc))"
  by (simp add: sweep_one_def terminate_def set_readyState_def set_isAlive_def
        delete_userId_def has_userId_def Let_def split: option.splits)

lemma sweep_frame:
  "wss_clients (fst (foldl sweep_one acc ws)) = wss_clients (fst acc)"
  "next_ws (fst (foldl sweep_one acc ws)) = next_ws (fst acc)"
  "next_ref (fst (foldl sweep_one acc ws)) = next_ref (fst acc)"
  "userId (heap (fst (foldl sweep_one acc ws)) x) = userId (heap (fst acc) x)"
  by (induction ws arbitrary: acc; simp add: sweep_one_frame)+

lemma sweep_heap_other:
  "x \<notin> set ws \<Longrightarrow> heap (fst (foldl sweep_one acc ws)) x = heap (fst acc) x"
  by (induction ws arbitrary: acc) (simp_all add: sweep_one_frame)

text \<open>
  \<open>wss.clients\<close> holds a socket once, so the whole sweep does to a socket what its own
  round does, and calls on each socket what its flag at the tick says.
\<close>

lemma sweep_heap:
  "distinct ws \<Longrightarrow> x \<in> set ws \<Longrightarrow>
   heap (fst (foldl sweep_one acc ws)) x = heap (fst (sweep_one acc x)) x"
proof (induction ws arbitrary: acc)
  case Nil
  then show ?case by simp
next
  case (Cons y ys)
  show ?case
  proof (cases "x = y")
    case True
    with Cons.prems show ?thesis by (simp add: sweep_heap_other)
  next
    case False
    with Cons.prems have "x \<in> set ys" "distinct ys" by simp_all
    then have "heap (fst (foldl sweep_one (sweep_one acc y) ys)) x
                 = heap (fst (sweep_one (sweep_one acc y) x)) x"
      by (rule Cons.IH [rotated])
    also have "\<dots> = heap (fst (sweep_one acc x)) x"
      using False by (simp add: sweep_one_heap sweep_one_frame)
    finally show ?thesis by simp
  qed
qed

lemma sweep_calls:
  "distinct ws \<Longrightarrow> snd (foldl sweep_one acc ws) = snd acc @ map (probe (fst acc)) ws"
proof (induction ws arbitrary: acc)
  case Nil
  then show ?case by simp
next
  case (Cons y ys)
  from Cons.prems have "\<forall>x\<in>set ys. x \<noteq> y" by auto
  then have "map (probe (fst (sweep_one acc y))) ys = map (probe (fst acc)) ys"
    by (simp add: probe_def sweep_one_frame)
  with Cons show ?case by (simp add: sweep_one_calls)
qed

lemma sweep_registry_shrinks:
  "connectedClients (fst acc) k = None \<Longrightarrow>
   connectedClients (fst (foldl sweep_one acc ws)) k = None"
  by (induction ws arbitrary: acc) (simp_all add: sweep_one_registry)

lemma sweep_registry_dead:
  "distinct ws \<Longrightarrow> x \<in> set ws \<Longrightarrow> isAlive (heap (fst acc) x) = Some False \<Longrightarrow>
   has_userId (fst acc) x \<Longrightarrow> userId (heap (fst acc) x) = Some u \<Longrightarrow>
   connectedClients (fst (foldl sweep_one acc ws)) u = None"
proof (induction ws arbitrary: acc)
  case Nil
  then show ?case by simp
next
  case (Cons y ys)
  show ?case
  proof (cases "x = y")
    case True
    with Cons.prems have "connectedClients (fst (sweep_one acc y)) u = None"
      by (simp add: sweep_one_registry)
    then show ?thesis by (simp add: sweep_registry_shrinks)
  next
    case False
    with Cons.prems show ?thesis
      by (simp add: Cons.IH sweep_one_frame has_userId_def)
  qed
qed

text \<open>
  C5. At a tick, for every socket of \<open>wss.clients\<close> (every open connection is one): if
  its \<open>isAlive\<close> is \<open>false\<close>, the sweep calls \<open>terminate\<close> on it and no \<open>ping\<close>, which
  leaves the socket closing, and if it has a \<open>userId\<close> the registry has no entry under
  that identity after the tick (whichever socket the entry mapped to); otherwise the sweep
  sets \<open>isAlive\<close> to \<open>false\<close> and calls \<open>ping\<close> on it and no \<open>terminate\<close>. A pong sets
  \<open>isAlive\<close> to \<open>true\<close>, and a new connection starts with \<open>isAlive\<close> \<open>true\<close>. None of
  the three events throws.
\<close>

theorem liveness_sweep:
  assumes "distinct (wss_clients s)" and "w \<in> set (wss_clients s)"
    shows "(case step parse stringify s Tick of
              Inl e \<Rightarrow> False
            | Inr (s', out) \<Rightarrow>
              if isAlive (heap s w) = Some False
              then Terminate w \<in> set out \<and> Ping w \<notin> set out \<and>
                   heap s' w = (heap s w)\<lparr>readyState :=
                                  if readyState (heap s w) = CLOSED then CLOSED else CLOSING\<rparr> \<and>
                   (has_userId s w \<longrightarrow>
                      (\<forall>u. userId (heap s w) = Some u \<longrightarrow> connectedClients s' u = None))
              else Ping w \<in> set out \<and> Terminate w \<notin> set out \<and>
                   heap s' w = (heap s w)\<lparr>isAlive := Some False\<rparr>) \<and>
           (case step parse stringify s (Pong w) of
              Inl e \<Rightarrow> False
            | Inr (s', out) \<Rightarrow> isAlive (heap s' w) = Some True) \<and>
           (case step parse stringify s Connect of
              Inl e \<Rightarrow> False
            | Inr (s', out) \<Rightarrow> isAlive (heap s' (next_ws s)) = Some True)"
proof -
  obtain s' out where t: "ping_sweep s = (s', out)" by (cases "ping_sweep s")
  from t have s': "s' = fst (foldl sweep_one (s, []) (wss_clients s))"
    and out: "out = snd (foldl sweep_one (s, []) (wss_clients s))"
    by (simp_all add: ping_sweep_def)
  from assms have calls: "out = map (probe s) (wss_clients s)"
    by (simp add: out sweep_calls)
  from assms have hp: "heap s' w = heap (fst (sweep_one (s, []) w)) w"
    by (simp add: s' sweep_heap)
  have sweep: "if isAlive (heap s w) = Some False
      then Terminate w \<in> set out \<and> Ping w \<notin> set out \<and>
           heap s' w = (heap s w)\<lparr>readyState :=
                          if readyState (heap s w) = CLOSED then CLOSED else CLOSING\<rparr> \<and>
           (has_userId s w \<longrightarrow>
              (\<forall>u. userId (heap s w) = Some u \<longrightarrow> connectedClients s' u = None))
      else Ping w \<in> set out \<and> Terminate w \<notin> set out \<and>
           heap s' w = (heap s w)\<lparr>isAlive := Some False\<rparr>"
  proof (cases "isAlive (heap s w) = Some False")
    case True
    have "Terminate w \<in> set out" "Ping w \<notin> set out"
      using assms(2) True by (auto simp add: calls probe_def)
    moreover have "has_userId s w \<longrightarrow>
        (\<forall>u. userId (heap s w) = Some u \<longrightarrow> connectedClients s' u = None)"
      using assms True by (auto simp add: s' intro: sweep_registry_dead)
    ultimately show ?thesis using True hp by (simp add: sweep_one_heap)
  next
    case False
    have "Ping w \<in> set out" "Terminate w \<notin> set out"
      using assms(2) False by (auto simp add: calls probe_def)
    then show ?thesis using False hp by (simp add: sweep_one_heap)
  qed
  have "case step parse stringify s (Pong w) of
          Inl e \<Rightarrow> False
        | Inr (s', out) \<Rightarrow> isAlive (heap s' w) = Some True"
    using assms(2) by (simp add: on_pong_def set_isAlive_def)
  moreover have "case step parse stringify s Connect of
          Inl e \<Rightarrow> False
        | Inr (s', out) \<Rightarrow> isAlive (heap s' (next_ws s)) = Some True"
    by (simp add: on_connection_def accept_def set_isAlive_def)
  ultimately show ?thesis using sweep t by simp
qed

text \<open>
  Socket 0 answered the last ping and socket 1 did not: the tick pings socket 0,
  terminates socket 1 and removes \<open>u2\<close> from the registry.
\<close>

theorem liveness_sweep_witness:
  "distinct (wss_clients u2_silent) \<and> 0 \<in> set (wss_clients u2_silent) \<and>
   1 \<in> set (wss_clients u2_silent) \<and>
   isAlive (heap u2_silent 0) = Some True \<and> isAlive (heap u2_silent 1) = Some False \<and>
   has_userId u2_silent 1 \<and> userId (heap u2_silent 1) = Some (Prim (JStr ''u2'')) \<and>
   step parse_frames stringify_frames u2_silent Tick = Inr (ping_sweep u2_silent) \<and>
   snd (ping_sweep u2_silent) = [Ping 0, Terminate 1] \<and>
   isAlive (heap (fst (ping_sweep u2_silent)) 0) = Some False \<and>
   readyState (heap (fst (ping_sweep u2_silent)) 1) = CLOSING \<and>
   connectedClients (fst (ping_sweep u2_silent)) (Prim (JStr ''u2'')) = None"
proof -
  have d: "distinct (wss_clients u2_silent)"
    and m0: "0 \<in> set (wss_clients u2_silent)" and m1: "1 \<in> set (wss_clients u2_silent)"
    by (simp_all add: u2_silent_simps)
  from liveness_sweep [OF d m0, where parse = parse_frames and stringify = stringify_frames]
       liveness_sweep [OF d m1, where parse = parse_frames and stringify = stringify_frames]
       d m0 m1
  show ?thesis
    by (simp add: u2_silent_simps u2_silent_tick has_userId_def)
qed

subsection \<open>Disconnect\<close>

text \<open>
  C7 fails on the code, in two ways. Sockets 0 and 1 register \<open>u1\<close>, in this order, so
  the entry of \<open>u1\<close> is that of socket 1; when socket 0 closes, the handler deletes the
  entry under its \<open>userId\<close>, which is state of another connection and not an entry of
  socket 0. And when a socket whose \<open>userId\<close> is an object with a property \<open>toString\<close>
  closes, the template literal of line 545 throws out of the listener and the process
  ends.
\<close>

theorem close_changes_other_state:
  "run parse_frames stringify_frames init
     [Connect, Connect, Connect, Message 0 reg_u1, Message 1 reg_u1] = Inr u1_twice \<and>
   userId (heap u1_twice 0) = Some (Prim (JStr ''u1'')) \<and>
   connectedClients u1_twice (Prim (JStr ''u1'')) = Some 1 \<and>
   readyState (heap u1_twice 1) = OPEN \<and>
   step parse_frames stringify_frames u1_twice (Close 0) = Inr (u1_first_closed, []) \<and>
   connectedClients u1_first_closed (Prim (JStr ''u1'')) = None \<and>
   run parse_frames stringify_frames init [Connect, Message 0 reg_object]
     = Inr object_registered \<and>
   0 \<in> set (wss_clients object_registered) \<and>
   step parse_frames stringify_frames object_registered (Close 0) = Inl TypeError"
proof -
  have "run parse_frames stringify_frames init
          [Connect, Connect, Connect, Message 0 reg_u1, Message 1 reg_u1] = Inr u1_twice"
    by (simp add: scenario_defs scenario_simps fun_eq_iff)
  moreover have "step parse_frames stringify_frames u1_twice (Close 0)
                   = Inr (u1_first_closed, [])"
    by (simp add: scenario_defs state_defs fun_eq_iff)
  moreover have "step parse_frames stringify_frames object_registered (Close 0) = Inl TypeError"
    by (simp add: scenario_defs state_defs)
  ultimately show ?thesis
    using reached(9)
    by (simp add: u1_twice_simps del: run.simps) (simp add: scenario_defs)
qed

subsection \<open>Executions\<close>

lemma on_message_frame:
  "wss_clients (fst (on_message parse stringify s w message)) = wss_clients s"
  "next_ws (fst (on_message parse stringify s w message)) = next_ws s"
  "isAlive (heap (fst (on_message parse stringify s w message)) x) = isAlive (heap s x)"
  "readyState (heap (fst (on_message parse stringify s w message)) x) = readyState (heap s x)"
  by (simp_all add: on_message_cases register_def set_userId_def Let_def split: option.splits)

text \<open>
  What a close that does not throw leaves behind.
\<close>

lemma on_close_frame:
  assumes "on_close s w = Inr s'"
    shows "heap s' = heap s \<and> wss_clients s' = wss_clients s \<and> next_ws s' = next_ws s"
  using assms
  by (auto simp add: on_close_def delete_userId_def split: option.splits if_splits)

text \<open>
  \<open>wss.clients\<close> stays a set of created sockets along every execution.
\<close>

lemma clients_ok_init: "clients_ok init"
  by (simp add: clients_ok_def init_def)

lemma clients_ok_step:
  assumes "clients_ok s" and "step parse stringify s e = Inr r"
    shows "clients_ok (fst r)"
proof (cases e)
  case Connect
  with assms show ?thesis
    by (fastforce simp add: clients_ok_def list_all_iff on_connection_def accept_def
          set_isAlive_def less_Suc_eq)
next
  case (Close x)
  with assms show ?thesis
    by (auto simp add: clients_ok_def list_all_iff closed_def set_readyState_def
          distinct_removeAll dest!: on_close_frame split: if_splits sum.splits)
next
  case Tick
  with assms show ?thesis
    by (auto simp add: clients_ok_def ping_sweep_def sweep_frame)
next
  case (Message x m)
  with assms show ?thesis
    by (auto simp add: clients_ok_def on_message_frame split: if_splits)
next
  case (Pong x)
  with assms show ?thesis
    by (auto simp add: clients_ok_def on_pong_def set_isAlive_def split: if_splits)
next
  case (Closing x)
  with assms show ?thesis
    by (auto simp add: clients_ok_def set_readyState_def split: if_splits)
next
  case (Frame_error x)
  with assms show ?thesis
    by (auto simp add: emit_error_def listeners_def split: if_splits)
qed

lemma on_message_calls:
  "Terminate x \<notin> set (snd (on_message parse stringify s w message))"
  "Ping x \<notin> set (snd (on_message parse stringify s w message))"
  by (simp_all add: on_message_cases signal_def split: option.splits)

lemma reaped_Cons: "reaped w (x # tr) \<longleftrightarrow> Terminate w \<in> set (snd x) \<or> reaped w tr"
  by (simp add: reaped_def)

lemma tick_calls:
  "clients_ok s \<Longrightarrow> snd (ping_sweep s) = map (probe s) (wss_clients s)"
  by (simp add: clients_ok_def ping_sweep_def sweep_calls)

lemma tick_clients: "wss_clients (fst (ping_sweep s)) = wss_clients s"
  by (simp add: ping_sweep_def sweep_frame)

text \<open>
  The invariant behind C6: whenever the socket is in \<open>wss.clients\<close> with \<open>isAlive\<close>
  \<open>false\<close>, a ping to it is pending.
\<close>

lemma answers_not_reaped:
  "clients_ok s \<Longrightarrow>
   (w \<in> set (wss_clients s) \<and> isAlive (heap s w) = Some False \<longrightarrow> pending) \<Longrightarrow>
   answers w pending (trace parse stringify s evs) \<Longrightarrow>
   \<not> reaped w (trace parse stringify s evs)"
proof (induction evs arbitrary: s pending)
  case Nil
  then show ?case by (simp add: reaped_def)
next
  case (Cons e evs)
  show ?case
  proof (cases "step parse stringify s e")
    case (Inl x)
    then show ?thesis by (simp add: reaped_def)
  next
    case (Inr r)
    have ok: "clients_ok (fst r)" using Cons.prems(1) Inr by (rule clients_ok_step)
    show ?thesis
    proof (cases e)
      case Connect
      have "w \<in> set (wss_clients (fst r)) \<and> isAlive (heap (fst r) w) = Some False \<longrightarrow> pending"
        using Cons.prems(2) Connect Inr
        by (auto simp add: on_connection_def accept_def set_isAlive_def split: if_splits)
      with Cons.IH [OF ok, of pending] Cons.prems(3) Connect Inr show ?thesis
        by (auto simp add: reaped_Cons)
    next
      case (Message x m)
      have "w \<in> set (wss_clients (fst r)) \<and> isAlive (heap (fst r) w) = Some False \<longrightarrow> pending"
        using Cons.prems(2) Message Inr by (auto simp add: on_message_frame split: if_splits)
      with Cons.IH [OF ok, of pending] Cons.prems(3) Message Inr show ?thesis
        by (auto simp add: reaped_Cons on_message_calls split: if_splits)
    next
      case (Pong x)
      have "w \<in> set (wss_clients (fst r)) \<and> isAlive (heap (fst r) w) = Some False
              \<longrightarrow> (if x = w then False else pending)"
        using Cons.prems(2) Pong Inr
        by (auto simp add: on_pong_def set_isAlive_def split: if_splits)
      with Cons.IH [OF ok, of "if x = w then False else pending"] Cons.prems(3) Pong Inr
      show ?thesis by (auto simp add: reaped_Cons split: if_splits)
    next
      case (Closing x)
      have "w \<in> set (wss_clients (fst r)) \<and> isAlive (heap (fst r) w) = Some False \<longrightarrow> pending"
        using Cons.prems(2) Closing Inr by (auto simp add: set_readyState_def split: if_splits)
      with Cons.IH [OF ok, of pending] Cons.prems(3) Closing Inr show ?thesis
        by (auto simp add: reaped_Cons split: if_splits)
    next
      case (Close x)
      have "w \<in> set (wss_clients (fst r)) \<and> isAlive (heap (fst r) w) = Some False \<longrightarrow> pending"
        using Cons.prems(2) Close Inr
        by (auto simp add: closed_def set_readyState_def dest!: on_close_frame
              split: if_splits sum.splits)
      moreover have "snd r = []"
        using Close Inr by (auto split: if_splits sum.splits)
      ultimately show ?thesis
        using Cons.IH [OF ok, of pending] Cons.prems(3) Close Inr
        by (simp add: reaped_Cons)
    next
      case (Frame_error x)
      have "r = (s, [])"
        using Frame_error Inr by (auto simp add: emit_error_def listeners_def split: if_splits)
      with Cons.IH [OF ok, of pending] Cons.prems(2,3) Frame_error Inr show ?thesis
        by (simp add: reaped_Cons)
    next
      case Tick
      let ?out = "snd (ping_sweep s)"
      from Tick Inr have r: "r = ping_sweep s" by simp
      from Cons.prems(3) Tick have np: "\<not> pending"
        and rest: "answers w (Ping w \<in> set ?out) (trace parse stringify (fst (ping_sweep s)) evs)"
        by simp_all
      have out: "?out = map (probe s) (wss_clients s)"
        using Cons.prems(1) by (rule tick_calls)
      have alive: "w \<in> set (wss_clients s) \<Longrightarrow> isAlive (heap s w) \<noteq> Some False"
        using Cons.prems(2) np by blast
      have no_term: "Terminate w \<notin> set ?out"
        using alive by (auto simp add: out probe_def split: if_splits)
      have inv: "w \<in> set (wss_clients (fst (ping_sweep s)))
                   \<and> isAlive (heap (fst (ping_sweep s)) w) = Some False
                 \<longrightarrow> Ping w \<in> set ?out"
        using alive by (auto simp add: tick_clients out probe_def)
      from ok r have "clients_ok (fst (ping_sweep s))" by simp
      from Cons.IH [OF this inv rest] no_term Tick show ?thesis
        by (simp add: reaped_Cons)
    qed
  qed
qed

text \<open>
  C6. In every execution from server start in which a socket answers every ping with a
  pong before the next tick, the sweep never calls \<open>terminate\<close> on that socket.
\<close>

theorem responsive_never_reaped:
  assumes "answers w False (trace parse stringify init evs)"
    shows "\<not> reaped w (trace parse stringify init evs)"
proof (rule answers_not_reaped [OF clients_ok_init _ assms])
  show "w \<in> set (wss_clients init) \<and> isAlive (heap init w) = Some False \<longrightarrow> False"
    by (simp add: init_def)
qed

text \<open>
  Two sockets and three ticks: socket 0 answers each ping and is never terminated;
  socket 1 never answers and is.
\<close>

theorem responsive_never_reaped_witness:
  "answers 0 False
     (trace parse_frames stringify_frames init
        [Connect, Connect, Tick, Pong 0, Tick, Pong 0, Tick]) \<and>
   \<not> reaped 0
     (trace parse_frames stringify_frames init
        [Connect, Connect, Tick, Pong 0, Tick, Pong 0, Tick]) \<and>
   reaped 1
     (trace parse_frames stringify_frames init
        [Connect, Connect, Tick, Pong 0, Tick, Pong 0, Tick])"
proof -
  have a: "answers 0 False
     (trace parse_frames stringify_frames init
        [Connect, Connect, Tick, Pong 0, Tick, Pong 0, Tick])"
    by (simp add: state_defs sweep_defs Let_def)
  have r: "reaped 1
     (trace parse_frames stringify_frames init
        [Connect, Connect, Tick, Pong 0, Tick, Pong 0, Tick])"
    by (simp add: reaped_def state_defs sweep_defs Let_def)
  from responsive_never_reaped [OF a] a r show ?thesis by simp
qed

subsection \<open>The registry after a superseded socket closes\<close>

text \<open>
  C2 fails on the code. Sockets 0 and 1 register \<open>u1\<close>, in this order, and socket 0
  closes: \<open>ws.on('close')\<close> deletes the entry under \<open>ws.userId\<close> without looking
  whose it is, so the registry loses \<open>u1\<close> although socket 1 is connected, open and
  registered as \<open>u1\<close>, and the offer addressed to \<open>u1\<close> is answered with
  \<open>Recipient not available\<close>.
\<close>

theorem superseded_close_unregisters_successor:
  "run parse_frames stringify_frames init
     [Connect, Connect, Connect, Message 0 reg_u1, Message 1 reg_u1, Close 0]
     = Inr u1_first_closed \<and>
   wss_clients u1_first_closed = [1, 2] \<and>
   heap u1_first_closed 1 =
     \<lparr>userId = Some (Prim (JStr ''u1'')), isAlive = Some True, readyState = OPEN\<rparr> \<and>
   connectedClients u1_first_closed = Map.empty \<and>
   snd (on_message parse_frames stringify_frames u1_first_closed 2 offer)
     = [Send 2 unavailable_u2]"
proof -
  have "run parse_frames stringify_frames init
          [Connect, Connect, Connect, Message 0 reg_u1, Message 1 reg_u1, Close 0]
          = Inr u1_first_closed"
    by (simp add: scenario_defs scenario_simps fun_eq_iff)
  then show ?thesis
    by (simp add: scenario_defs scenario_simps signal_def stringify_frames_def
          error_envelope_def)
qed

end
